theory Spec2Isabelle
  imports Complex_Main
begin

section \<open>DS::BonsaiFit (src/ds/BonsaiFit.hh)\<close>

text \<open>
  The class holds four protected members of its own, \<open>time\<close>, \<open>dir\<close>, \<open>LogLike\<close> and
  \<open>LogLike0\<close>, next to what it inherits from \<open>TObject\<close> and \<open>PosFit\<close>. The accessors
  only copy values, so the representation of \<open>double\<close> (type \<open>'d\<close>), of \<open>TVector3\<close>
  (type \<open>'v\<close>) and of the inherited part (type \<open>'p\<close>, field \<open>base\<close>) stay type
  parameters: whatever a \<open>double\<close> holds, a NaN included, is stored and read back as it is.
  A \<open>void\<close> member function that assigns a member is a function from the object to the
  updated object; a \<open>const\<close> getter is a function from the object to the value.
\<close>

record ('d, 'v, 'p) BonsaiFit =
  base :: 'p
  time :: 'd
  dir :: 'v
  LogLike :: 'd
  LogLike0 :: 'd

definition GetTime :: "('d, 'v, 'p) BonsaiFit \<Rightarrow> 'd" where
  "GetTime this = time this"

definition SetTime :: "'d \<Rightarrow> ('d, 'v, 'p) BonsaiFit \<Rightarrow> ('d, 'v, 'p) BonsaiFit" where
  "SetTime time_arg this = this\<lparr>time := time_arg\<rparr>"

definition GetDirection :: "('d, 'v, 'p) BonsaiFit \<Rightarrow> 'v" where
  "GetDirection this = dir this"

definition SetDirection :: "'v \<Rightarrow> ('d, 'v, 'p) BonsaiFit \<Rightarrow> ('d, 'v, 'p) BonsaiFit" where
  "SetDirection dir_arg this = this\<lparr>dir := dir_arg\<rparr>"

definition GetLogLike :: "('d, 'v, 'p) BonsaiFit \<Rightarrow> 'd" where
  "GetLogLike this = LogLike this"

definition SetLogLike :: "'d \<Rightarrow> ('d, 'v, 'p) BonsaiFit \<Rightarrow> ('d, 'v, 'p) BonsaiFit" where
  "SetLogLike LogLike_arg this = this\<lparr>LogLike := LogLike_arg\<rparr>"

definition GetLogLike0 :: "('d, 'v, 'p) BonsaiFit \<Rightarrow> 'd" where
  "GetLogLike0 this = LogLike0 this"

definition SetLogLike0 :: "'d \<Rightarrow> ('d, 'v, 'p) BonsaiFit \<Rightarrow> ('d, 'v, 'p) BonsaiFit" where
  "SetLogLike0 LogLike0_arg this = this\<lparr>LogLike0 := LogLike0_arg\<rparr>"

section \<open>RAT::VertexGen_FastNeutron (src/gen/VertexGen_FastNeutron.hh)\<close>

text \<open>
  The private members of the class, in the order of the header (\<open>n\<close> is \<open>n_ptr\<close> here,
  the leading underscores are dropped). A pointer is an address
  or null. \<open>double\<close> values are only stored, read and initialised from the literals 400
  and 10 (both exactly representable), never computed with, so \<open>real\<close> stands for them.
\<close>

type_synonym ptr = "nat option"

record VertexGen_FastNeutron =
  particle :: string
  pDef :: ptr
  n_ptr :: ptr
  FastNeutron :: string
  valueD :: real
  valueE :: real
  messenger :: ptr

definition DDEFAULT :: real where
  "DDEFAULT = 400"

definition EDEFAULT :: real where
  "EDEFAULT = 10"

text \<open>
  \<open>GetDepth\<close> and \<open>GetEnThreshold\<close> are inline and not declared \<open>const\<close>, so each is
  modelled as returning its value together with the generator after the call.
\<close>

definition GetDepth :: "VertexGen_FastNeutron \<Rightarrow> real \<times> VertexGen_FastNeutron" where
  "GetDepth this = (valueD this, this)"

definition GetEnThreshold :: "VertexGen_FastNeutron \<Rightarrow> real \<times> VertexGen_FastNeutron" where
  "GetEnThreshold this = (valueE this, this)"

text \<open>
  The header declares \<open>void SetDepth(double AAm = DDEFAULT)\<close> and
  \<open>void SetEnThreshold(double EAm = EDEFAULT)\<close>: a call that passes no argument
  passes the default. \<open>None\<close> is the call without an argument.
\<close>

definition SetDepth_arg :: "real option \<Rightarrow> real" where
  "SetDepth_arg AAm = (case AAm of None \<Rightarrow> DDEFAULT | Some a \<Rightarrow> a)"

definition SetEnThreshold_arg :: "real option \<Rightarrow> real" where
  "SetEnThreshold_arg EAm = (case EAm of None \<Rightarrow> EDEFAULT | Some e \<Rightarrow> e)"

text \<open>
  Modelled from the spec: the body of \<open>SetDepth\<close> is not in the header (the
  generator's implementation file is missing). The spec: "Setting depth or threshold
  (setDepth, setEnThreshold) independently updates GeneratorConfig and marks the
  SpectrumTable stale". The class declares no table member, so the update of the
  configured depth is all there is to write down; no other member is written.
\<close>

definition SetDepth :: "real option \<Rightarrow> VertexGen_FastNeutron \<Rightarrow> VertexGen_FastNeutron" where
  "SetDepth AAm this = this\<lparr>valueD := SetDepth_arg AAm\<rparr>"

text \<open>
  Modelled from the spec: the body of \<open>SetEnThreshold\<close>, missing like that of
  \<open>SetDepth\<close>, after the same sentence of the spec: it updates the configured
  threshold and no other member.
\<close>

definition SetEnThreshold ::
  "real option \<Rightarrow> VertexGen_FastNeutron \<Rightarrow> VertexGen_FastNeutron" where
  "SetEnThreshold EAm this = this\<lparr>valueE := SetEnThreshold_arg EAm\<rparr>"

text \<open>
  Modelled from the spec: the constructor's body is not in the header either. The spec:
  "Defaults: depth = 400 (distance units), energyThreshold = 10 (energy units)". What the
  constructor gives the other members is not said, so the object it starts from is the
  parameter \<open>this\<close>.
\<close>

definition construct :: "VertexGen_FastNeutron \<Rightarrow> VertexGen_FastNeutron" where
  "construct this = this\<lparr>valueD := DDEFAULT, valueE := EDEFAULT\<rparr>"

section \<open>Accessors of BonsaiFit\<close>

text \<open>
  Claim C10. For every BonsaiFit object and every value \<open>v\<close>, each of the setters SetTime,
  SetDirection, SetLogLike and SetLogLike0 called with \<open>v\<close> makes its own getter return
  exactly \<open>v\<close> and leaves what the three other getters return as it was; the inherited
  part of the object is untouched as well.
\<close>

theorem BonsaiFit_setters_frame:
  "GetTime (SetTime t b) = t
   \<and> GetDirection (SetTime t b) = GetDirection b
   \<and> GetLogLike (SetTime t b) = GetLogLike b
   \<and> GetLogLike0 (SetTime t b) = GetLogLike0 b
   \<and> base (SetTime t b) = base b
   \<and> GetDirection (SetDirection d b) = d
   \<and> GetTime (SetDirection d b) = GetTime b
   \<and> GetLogLike (SetDirection d b) = GetLogLike b
   \<and> GetLogLike0 (SetDirection d b) = GetLogLike0 b
   \<and> base (SetDirection d b) = base b
   \<and> GetLogLike (SetLogLike l b) = l
   \<and> GetTime (SetLogLike l b) = GetTime b
   \<and> GetDirection (SetLogLike l b) = GetDirection b
   \<and> GetLogLike0 (SetLogLike l b) = GetLogLike0 b
   \<and> base (SetLogLike l b) = base b
   \<and> GetLogLike0 (SetLogLike0 l0 b) = l0
   \<and> GetTime (SetLogLike0 l0 b) = GetTime b
   \<and> GetDirection (SetLogLike0 l0 b) = GetDirection b
   \<and> GetLogLike (SetLogLike0 l0 b) = GetLogLike b
   \<and> base (SetLogLike0 l0 b) = base b"
  by (simp add: GetTime_def SetTime_def GetDirection_def SetDirection_def
      GetLogLike_def SetLogLike_def GetLogLike0_def SetLogLike0_def)

section \<open>Getters of the generator\<close>

text \<open>
  Claim C9. GetDepth returns the most recently set depth and GetEnThreshold the most
  recently set threshold, and neither getter changes the generator. In every generator
  state each getter returns its member (\<open>valueD\<close>, \<open>valueE\<close>) and the generator after
  the call is the generator before it, so no member is written and nothing is rebuilt.
  After SetDepth the depth read is the value that call passed (its argument, or the
  default when it has none), whatever was set before; a later SetEnThreshold and
  intervening calls of the getters do not change what GetDepth returns. The same holds
  with depth and threshold exchanged.
\<close>

theorem getters_return_most_recently_set_value_and_keep_state:
  "fst (GetDepth g) = valueD g \<and> snd (GetDepth g) = g
   \<and> fst (GetEnThreshold g) = valueE g \<and> snd (GetEnThreshold g) = g
   \<and> fst (GetDepth (SetDepth (Some v) g)) = v
   \<and> fst (GetEnThreshold (SetEnThreshold (Some e) g)) = e
   \<and> fst (GetDepth (SetDepth a g)) = SetDepth_arg a
   \<and> fst (GetEnThreshold (SetEnThreshold a g)) = SetEnThreshold_arg a
   \<and> fst (GetDepth (SetDepth (Some v) (SetDepth a g))) = v
   \<and> fst (GetEnThreshold (SetEnThreshold (Some e) (SetEnThreshold a g))) = e
   \<and> fst (GetDepth (SetEnThreshold a (SetDepth (Some v) g))) = v
   \<and> fst (GetEnThreshold (SetDepth a (SetEnThreshold (Some e) g))) = e
   \<and> fst (GetDepth (SetEnThreshold a g)) = fst (GetDepth g)
   \<and> fst (GetEnThreshold (SetDepth a g)) = fst (GetEnThreshold g)
   \<and> fst (GetDepth (snd (GetEnThreshold (snd (GetDepth (SetDepth (Some v) g)))))) = v
   \<and> fst (GetEnThreshold (snd (GetDepth (snd (GetEnThreshold (SetEnThreshold (Some e) g))))))
       = e"
  by (simp add: GetDepth_def GetEnThreshold_def SetDepth_def SetEnThreshold_def
      SetDepth_arg_def SetEnThreshold_arg_def)

section \<open>Defaults of the generator\<close>

text \<open>
  Claim C7. The default configuration has depth 400 and energy threshold 10
  (\<open>DDEFAULT = 400\<close>, \<open>EDEFAULT = 10\<close>), and a call of SetDepth or of SetEnThreshold
  with no argument, on any generator, brings the value back to that default: the getter
  then returns 400, respectively 10, the value of a freshly constructed generator.
\<close>

theorem defaults_400_10_restored_by_no_argument_call:
  "DDEFAULT = 400 \<and> EDEFAULT = 10
   \<and> fst (GetDepth (construct g0)) = 400
   \<and> fst (GetEnThreshold (construct g0)) = 10
   \<and> fst (GetDepth (SetDepth None g)) = 400
   \<and> fst (GetEnThreshold (SetEnThreshold None g)) = 10
   \<and> fst (GetDepth (SetDepth None g)) = fst (GetDepth (construct g0))
   \<and> fst (GetEnThreshold (SetEnThreshold None g)) = fst (GetEnThreshold (construct g0))"
  by (simp add: DDEFAULT_def EDEFAULT_def GetDepth_def GetEnThreshold_def construct_def
      SetDepth_def SetEnThreshold_def SetDepth_arg_def SetEnThreshold_arg_def)

end
